theory Spec2Isabelle
  imports Main "HOL-Library.Word"
begin

section \<open>Python values used by \<^verbatim>\<open>api.py\<close>\<close>

text \<open>
  A Python \<^verbatim>\<open>str\<close> is a sequence of Unicode code points, and \<^verbatim>\<open>len\<close>, slicing,
  \<^verbatim>\<open>startswith\<close> and \<^verbatim>\<open>strip\<close> all count code points. A string is therefore a list of
  code points (natural numbers); \<open>ascii\<close> turns an ASCII literal into such a list.
  \<^verbatim>\<open>bytes\<close> is a list of octets.
\<close>

type_synonym codepoint = nat
type_synonym str = "codepoint list"
type_synonym bytes = "8 word list"

abbreviation ascii :: "string \<Rightarrow> str" where
  "ascii s \<equiv> map of_char s"

text \<open>
  \<^verbatim>\<open>str.strip()\<close> without argument removes the characters for which CPython's
  \<^verbatim>\<open>Py_UNICODE_ISSPACE\<close> holds: U+0009..U+000D, U+001C..U+0020, U+0085, U+00A0, U+1680,
  U+2000..U+200A, U+2028, U+2029, U+202F, U+205F and U+3000.
\<close>

definition isspace :: "codepoint \<Rightarrow> bool" where
  "isspace c \<longleftrightarrow>
     (9 \<le> c \<and> c \<le> 13) \<or> (28 \<le> c \<and> c \<le> 32) \<or> c = 133 \<or> c = 160 \<or> c = 5760 \<or>
     (8192 \<le> c \<and> c \<le> 8202) \<or> c = 8232 \<or> c = 8233 \<or> c = 8239 \<or> c = 8287 \<or> c = 12288"

definition str_strip :: "str \<Rightarrow> str" where
  "str_strip s = rev (dropWhile isspace (rev (dropWhile isspace s)))"

text \<open>
  \<^verbatim>\<open>s.split(sep)\<close> for a one-character separator: the pieces between the occurrences of
  the separator, in order; a string without separator (also the empty one) is one piece.
\<close>

fun str_split :: "codepoint \<Rightarrow> str \<Rightarrow> str list" where
  "str_split sep [] = [[]]"
| "str_split sep (c # cs) =
     (if c = sep then [] # str_split sep cs
      else (case str_split sep cs of
              [] \<Rightarrow> [[c]]
            | p # ps \<Rightarrow> (c # p) # ps))"

text \<open>\<^verbatim>\<open>sep.join(xs)\<close>.\<close>

fun str_join :: "str \<Rightarrow> str list \<Rightarrow> str" where
  "str_join sep [] = []"
| "str_join sep [x] = x"
| "str_join sep (x # y # ys) = x @ sep @ str_join sep (y # ys)"

definition str_startswith :: "str \<Rightarrow> str \<Rightarrow> bool" where
  "str_startswith s p \<longleftrightarrow> take (length p) s = p"

definition str_endswith :: "str \<Rightarrow> str \<Rightarrow> bool" where
  "str_endswith s p \<longleftrightarrow> length p \<le> length s \<and> drop (length s - length p) s = p"

text \<open>
  The slice \<^verbatim>\<open>s[i:-j]\<close> for \<open>i \<ge> 0\<close> and \<open>j > 0\<close>: Python clamps the end index
  \<open>len(s) - j\<close> at 0 and returns the empty string when the start is not before the end.
  Truncating subtraction on \<open>nat\<close> with \<open>take\<close> and \<open>drop\<close> computes exactly that.
\<close>

definition str_slice :: "str \<Rightarrow> nat \<Rightarrow> nat \<Rightarrow> str" where
  "str_slice s i j = drop i (take (length s - j) s)"

definition comma :: codepoint where
  "comma = 44"

definition space :: str where
  "space = ascii '' ''"

definition fence :: str where
  "fence = ascii ''```''"

definition fence_json :: str where
  "fence_json = ascii ''```json''"

text \<open>
  Exceptions are values: the class name and the text \<^verbatim>\<open>str(e)\<close>. Only instances of
  \<^verbatim>\<open>Exception\<close> are modelled, the ones \<^verbatim>\<open>except Exception\<close> catches.
\<close>

datatype exn = Exn (exn_type: string) (exn_str: str)

text \<open>Calling a method on \<^verbatim>\<open>None\<close>.\<close>

definition attribute_error :: "string \<Rightarrow> exn" where
  "attribute_error attr =
     Exn ''AttributeError''
       ([39] @ ascii ''NoneType'' @ [39] @ ascii '' object has no attribute '' @ [39] @ ascii attr @ [39])"

section \<open>The AI service and the world\<close>

text \<open>
  A content part is built by \<^verbatim>\<open>types.Part.from_bytes(data, mime_type)\<close> or by
  \<^verbatim>\<open>types.Part.from_text(text)\<close>. The declared media type of an upload may be absent.
\<close>

datatype part = Part_from_bytes bytes "str option" | Part_from_text str

fun is_inline_data :: "part \<Rightarrow> bool" where
  "is_inline_data (Part_from_bytes _ _) = True"
| "is_inline_data (Part_from_text _) = False"

datatype tool = google_search

record generate_config =
  tools :: "tool list"
  response_mime_type :: str
  system_instruction :: str

text \<open>One call of \<^verbatim>\<open>client.models.generate_content\<close>: its keyword arguments.\<close>

record ai_call =
  model :: str
  contents :: "part list"
  config :: "generate_config option"

text \<open>
  The hosted service is opaque: any function from a call to either a raised exception or
  the \<^verbatim>\<open>.text\<close> of the response, which the client library types as optional.
  \<^verbatim>\<open>json.loads\<close> is the standard library's parser, a parameter as well: it returns the
  parsed value or raises.
\<close>

type_synonym ai_service = "ai_call \<Rightarrow> exn + str option"
type_synonym 'j json_loads = "str \<Rightarrow> exn + 'j"

text \<open>
  Python lists are mutable objects, and \<^verbatim>\<open>run_full_job_search\<close> receives a reference to
  the handler's list. The store keeps every list object of content parts; a reference is
  an index into it, and a new object gets the next index. The world also records the
  calls sent to the AI service and the lines printed on standard output.
\<close>

type_synonym addr = nat

record world =
  heap :: "part list list"
  ai_calls :: "ai_call list"
  stdout :: "str list"

definition new_list :: "part list \<Rightarrow> world \<Rightarrow> addr \<times> world" where
  "new_list xs w = (length (heap w), w\<lparr>heap := heap w @ [xs]\<rparr>)"

definition list_get :: "addr \<Rightarrow> world \<Rightarrow> part list" where
  "list_get a w = heap w ! a"

text \<open>\<^verbatim>\<open>xs[:]\<close> is a new list object with the same elements.\<close>

definition list_copy :: "addr \<Rightarrow> world \<Rightarrow> addr \<times> world" where
  "list_copy a w = new_list (list_get a w) w"

text \<open>\<^verbatim>\<open>xs.append(x)\<close> changes the object \<open>xs\<close> refers to.\<close>

definition list_append :: "addr \<Rightarrow> part \<Rightarrow> world \<Rightarrow> world" where
  "list_append a x w = w\<lparr>heap := (heap w)[a := heap w ! a @ [x]]\<rparr>"

definition generate_content :: "ai_service \<Rightarrow> ai_call \<Rightarrow> world \<Rightarrow> (exn + str option) \<times> world" where
  "generate_content ai c w = (ai c, w\<lparr>ai_calls := ai_calls w @ [c]\<rparr>)"

section \<open>\<^verbatim>\<open>get_gemini_parts\<close> (lines 24 to 28)\<close>

definition get_gemini_parts :: "bytes \<Rightarrow> str option \<Rightarrow> world \<Rightarrow> addr \<times> world" where
  "get_gemini_parts file_bytes mime_type w =
     (if file_bytes \<noteq> [] then new_list [Part_from_bytes file_bytes mime_type] w
      else new_list [] w)"

section \<open>\<^verbatim>\<open>run_full_job_search\<close> (lines 37 to 99)\<close>

text \<open>The two f-strings, with the line breaks and the indentation of the source.\<close>

definition text_prompt :: "str \<Rightarrow> str \<Rightarrow> str \<Rightarrow> str \<Rightarrow> str" where
  \<open>text_prompt job_role qualification location custom_keywords =
     ascii ''\<newline>    You are a job AI assistant. Your task is to extract skills and experiences from the provided RESUME (if available) and combine them with the user's explicit inputs below.\<newline>    User Input: Job Role: ''
     @ job_role @ ascii '', Qualification: '' @ qualification @ ascii '', Location: '' @ location
     @ ascii '', Custom Keywords: '' @ custom_keywords
     @ ascii ''\<newline>    Analyze the resume for relevant technical skills, past job titles, and industry focus. Generate a comprehensive, comma-separated list of related keywords and roles for the final search query.\<newline>    Return ONLY the comma-separated keywords and roles, no explanation.\<newline>    ''\<close>

definition search_analysis_prompt :: "str \<Rightarrow> str" where
  \<open>search_analysis_prompt search_query_text =
     ascii ''\<newline>    Based on the refined search query: "'' @ search_query_text
     @ ascii ''", use the Google Search tool to find the top 5 most relevant job postings.\<newline>    For each posting found, extract the 'title', the 'link', and the original search 'snippet'. \<newline>    Then, for each posting, perform a secondary analysis to extract these three key points into a JSON sub-object named 'analysis':\<newline>    1.  Type: (e.g., Full-time, Remote)\<newline>    2.  Requirement: (The single most essential skill)\<newline>    3.  USP: (Unique Selling Point of the job or company)\<newline>    Return the final, structured list of jobs as a strict JSON array.\<newline>    ''\<close>

definition gemini_model :: str where
  "gemini_model = ascii ''gemini-2.5-flash''"

definition search_config :: generate_config where
  \<open>search_config =
     \<lparr>tools = [google_search],
      response_mime_type = ascii ''application/json'',
      system_instruction = ascii ''You are a specialized job search tool that strictly outputs a JSON array containing job objects. Each job object must include a nested 'analysis' object with Type, Requirement, and USP fields.''\<rparr>\<close>

text \<open>
  Line 61: \<^verbatim>\<open>[k.strip() for k in keyword_response.text.split(",") if k.strip()]\<close>.
\<close>

definition keywords_list :: "str \<Rightarrow> str list" where
  "keywords_list response_text =
     map str_strip (filter (\<lambda>k. str_strip k \<noteq> []) (str_split comma response_text))"

text \<open>Line 62: \<^verbatim>\<open>" ".join(keywords_list + [qualification, location])\<close>.\<close>

definition make_search_query :: "str list \<Rightarrow> str \<Rightarrow> str \<Rightarrow> str" where
  "make_search_query kws qualification location = str_join space (kws @ [qualification, location])"

text \<open>Lines 90 to 94: the text handed to \<^verbatim>\<open>json.loads\<close>.\<close>

definition strip_code_fence :: "str \<Rightarrow> str" where
  "strip_code_fence response_text =
     (let text = str_strip response_text in
      if str_startswith text fence_json \<and> str_endswith text fence then str_strip (str_slice text 7 3)
      else if str_startswith text fence \<and> str_endswith text fence then str_strip (str_slice text 3 3)
      else text)"

text \<open>The dictionary returned on line 99.\<close>

record 'j search_data =
  search_query :: str
  "keywords" :: "str list"
  results :: 'j

text \<open>The two requests, as the keyword arguments on lines 57 to 59 and 79 to 87 give them.\<close>

definition keyword_call :: "part list \<Rightarrow> ai_call" where
  "keyword_call cs = \<lparr>model = gemini_model, contents = cs, config = None\<rparr>"

definition search_call :: "part list \<Rightarrow> ai_call" where
  "search_call cs = \<lparr>model = gemini_model, contents = cs, config = Some search_config\<rparr>"

definition run_full_job_search ::
  "ai_service \<Rightarrow> 'j json_loads \<Rightarrow> str \<Rightarrow> str \<Rightarrow> str \<Rightarrow> str \<Rightarrow> addr \<Rightarrow> world
     \<Rightarrow> (exn + 'j search_data) \<times> world" where
  "run_full_job_search ai loads job_role qualification location custom_keywords resume_parts w0 =
     (let prompt = text_prompt job_role qualification location custom_keywords;
          (contents_ref, w1) = list_copy resume_parts w0;
          w2 = list_append contents_ref (Part_from_text prompt) w1;
          (keyword_response, w3) = generate_content ai (keyword_call (list_get contents_ref w2)) w2
      in case keyword_response of
           Inl e \<Rightarrow> (Inl e, w3)
         | Inr None \<Rightarrow> (Inl (attribute_error ''split''), w3)
         | Inr (Some keyword_text) \<Rightarrow>
             (let kws = keywords_list keyword_text;
                  query = make_search_query kws qualification location;
                  (final_contents, w4) = new_list [Part_from_text (search_analysis_prompt query)] w3;
                  (final_response, w5) = generate_content ai (search_call (list_get final_contents w4)) w4
              in case final_response of
                   Inl e \<Rightarrow> (Inl e, w5)
                 | Inr None \<Rightarrow> (Inl (attribute_error ''strip''), w5)
                 | Inr (Some final_text) \<Rightarrow>
                     (case loads (strip_code_fence final_text) of
                        Inl e \<Rightarrow> (Inl e, w5)
                      | Inr parsed \<Rightarrow>
                          (Inr \<lparr>search_query = query, keywords = kws, results = parsed\<rparr>, w5))))"

section \<open>\<^verbatim>\<open>search_jobs\<close> (lines 105 to 137)\<close>

text \<open>
  An upload: what \<^verbatim>\<open>await resume_file.read()\<close> gives (the bytes, or a raised exception)
  and the declared media type. An \<^verbatim>\<open>UploadFile\<close> object is always truthy, so
  \<^verbatim>\<open>if resume_file\<close> asks whether a file was sent.
\<close>

record upload_file =
  file_read :: "exn + bytes"
  content_type :: "str option"

text \<open>
  The handler either returns a \<^verbatim>\<open>JSONResponse\<close> (status code and content) or raises
  \<^verbatim>\<open>HTTPException\<close> (status code and detail), which the framework turns into the response.
\<close>

datatype 'j json_content = SearchData "'j search_data" | Message str

datatype 'j handler_result = JSONResponse nat "'j json_content" | HTTPException nat str

definition failure_detail :: str where
  "failure_detail = ascii ''The AI search service failed to process the request. Try refining your query.''"

text \<open>
  Lines 116 to 123, the first \<^verbatim>\<open>try\<close> block: the list of resume parts, or the exception
  that reading the upload raised.
\<close>

definition process_resume_file :: "upload_file option \<Rightarrow> world \<Rightarrow> (exn + addr) \<times> world" where
  "process_resume_file resume_file w0 =
     (let (resume_parts, w1) = new_list [] w0
      in case resume_file of
           None \<Rightarrow> (Inr resume_parts, w1)
         | Some f \<Rightarrow>
             (case file_read f of
                Inl e \<Rightarrow> (Inl e, w1)
              | Inr file_bytes \<Rightarrow>
                  (let (resume_parts, w2) = get_gemini_parts file_bytes (content_type f) w1
                   in (Inr resume_parts, w2))))"

definition search_jobs ::
  "ai_service \<Rightarrow> 'j json_loads \<Rightarrow> str \<Rightarrow> str \<Rightarrow> str \<Rightarrow> str \<Rightarrow> upload_file option \<Rightarrow> world
     \<Rightarrow> 'j handler_result \<times> world" where
  "search_jobs ai loads job_role qualification location custom_keywords resume_file w0 =
     (case process_resume_file resume_file w0 of
        (Inl e, w1) \<Rightarrow>
          (JSONResponse 500 (Message (ascii ''File reading failed: '' @ exn_str e)), w1)
      | (Inr resume_parts, w1) \<Rightarrow>
          (case run_full_job_search ai loads job_role qualification location custom_keywords
                  resume_parts w1 of
             (Inr search_result, w2) \<Rightarrow> (JSONResponse 200 (SearchData search_result), w2)
           | (Inl e, w2) \<Rightarrow>
               (HTTPException 500 failure_detail,
                w2\<lparr>stdout := stdout w2 @ [ascii ''Gemini/Search Error: '' @ exn_str e]\<rparr>)))"

section \<open>A mocked service for the examples\<close>

text \<open>
  The examples run the handler against a service that answers the keyword request (the
  one without configuration) with one fixed text and the search request with another,
  and against a parser that knows the empty array only. The parsed values are kept as a
  small JSON tree.
\<close>

datatype json = JNull | JString str | JArray "json list" | JObject "(str \<times> json) list"

definition mock_ai :: "str \<Rightarrow> str \<Rightarrow> ai_service" where
  "mock_ai keyword_text final_text c =
     (case config c of None \<Rightarrow> Inr (Some keyword_text) | Some _ \<Rightarrow> Inr (Some final_text))"

definition json_decode_error :: exn where
  "json_decode_error = Exn ''JSONDecodeError'' (ascii ''Expecting value: line 1 column 1 (char 0)'')"

definition mock_loads :: "json json_loads" where
  "mock_loads s = (if s = ascii ''[]'' then Inr (JArray []) else Inl json_decode_error)"

definition world0 :: world where
  "world0 = \<lparr>heap = [], ai_calls = [], stdout = []\<rparr>"

definition pdf_part :: part where
  "pdf_part = Part_from_bytes [37, 80, 68, 70] (Some (ascii ''application/pdf''))"

section \<open>Facts about the string operations\<close>

lemma str_split_nonempty: "str_split sep s \<noteq> []"
  by (induction s) (auto split: list.splits)

lemma str_join_Cons: "ps \<noteq> [] \<Longrightarrow> str_join sep (p # ps) = p @ sep @ str_join sep ps"
  by (cases ps) auto

lemma str_join_split: "str_join [sep] (str_split sep s) = s"
proof (induction s)
  case Nil
  show ?case by simp
next
  case (Cons c cs)
  obtain p ps where ps: "str_split sep cs = p # ps"
    using str_split_nonempty [of sep cs] by (cases "str_split sep cs") auto
  show ?case
  proof (cases "c = sep")
    case True
    then show ?thesis using Cons.IH by (simp add: str_join_Cons str_split_nonempty)
  next
    case False
    then show ?thesis using Cons.IH ps by (cases ps) auto
  qed
qed

lemma str_split_no_sep: "p \<in> set (str_split sep s) \<Longrightarrow> sep \<notin> set p"
  by (induction s arbitrary: p) (auto split: if_splits list.splits)

lemma dropWhile_last: "dropWhile P xs \<noteq> [] \<Longrightarrow> last (dropWhile P xs) = last xs"
  by (induction xs) (auto split: if_splits)

lemma str_strip_hd: "str_strip s \<noteq> [] \<Longrightarrow> \<not> isspace (hd (str_strip s))"
proof -
  assume ne: "str_strip s \<noteq> []"
  let ?a = "dropWhile isspace s"
  let ?b = "dropWhile isspace (rev ?a)"
  from ne have b: "?b \<noteq> []" by (simp add: str_strip_def)
  have a: "?a \<noteq> []"
  proof
    assume "?a = []"
    then have "?b = []" by (simp only: rev.simps dropWhile.simps)
    with b show False by blast
  qed
  have "hd (str_strip s) = last ?b" using b by (simp add: str_strip_def hd_rev)
  also have "\<dots> = last (rev ?a)" using b by (rule dropWhile_last)
  also have "\<dots> = hd ?a" using a by (simp add: last_rev)
  finally show ?thesis using hd_dropWhile [OF a] by simp
qed

lemma str_strip_last: "str_strip s \<noteq> [] \<Longrightarrow> \<not> isspace (last (str_strip s))"
proof -
  assume ne: "str_strip s \<noteq> []"
  let ?b = "dropWhile isspace (rev (dropWhile isspace s))"
  from ne have b: "?b \<noteq> []" by (simp add: str_strip_def)
  have "last (str_strip s) = hd ?b" using b by (simp add: str_strip_def last_rev)
  then show ?thesis using hd_dropWhile [OF b] by simp
qed

lemma str_strip_decomp:
  "\<exists>a b. s = a @ str_strip s @ b \<and> (\<forall>c \<in> set a. isspace c) \<and> (\<forall>c \<in> set b. isspace c)"
proof -
  let ?a = "takeWhile isspace s"
  let ?r = "rev (dropWhile isspace s)"
  let ?b = "rev (takeWhile isspace ?r)"
  have "?r = takeWhile isspace ?r @ dropWhile isspace ?r" by simp
  then have "rev ?r = rev (dropWhile isspace ?r) @ ?b" by (metis rev_append)
  then have "dropWhile isspace s = str_strip s @ ?b" by (simp add: str_strip_def)
  then have "s = ?a @ str_strip s @ ?b" by (metis takeWhile_dropWhile_id)
  moreover have "\<forall>c \<in> set ?a. isspace c" by (auto dest: set_takeWhileD)
  moreover have "\<forall>c \<in> set ?b. isspace c" by (auto dest: set_takeWhileD)
  ultimately show ?thesis by blast
qed

lemma keywords_list_alt:
  "keywords_list t = filter (\<lambda>k. k \<noteq> []) (map str_strip (str_split comma t))"
  by (simp add: keywords_list_def filter_map comp_def)

lemma str_join_append_two:
  "xs \<noteq> [] \<Longrightarrow> str_join sp (xs @ [q, l]) = str_join sp xs @ sp @ q @ sp @ l"
proof (induction xs)
  case Nil
  then show ?case by simp
next
  case (Cons x xs)
  show ?case
  proof (cases "xs = []")
    case True
    then show ?thesis by simp
  next
    case False
    then show ?thesis using Cons.IH by (simp add: str_join_Cons)
  qed
qed

lemma keywords_list_trimmed:
  "\<forall>k \<in> set (keywords_list t). k \<noteq> [] \<and> \<not> isspace (hd k) \<and> \<not> isspace (last k)"
proof
  fix k assume "k \<in> set (keywords_list t)"
  then obtain p where k: "k = str_strip p" and ne: "str_strip p \<noteq> []"
    by (auto simp: keywords_list_def)
  show "k \<noteq> [] \<and> \<not> isspace (hd k) \<and> \<not> isspace (last k)"
    using ne str_strip_hd [OF ne] str_strip_last [OF ne] by (simp add: k)
qed

lemma keywords_list_example:
  "keywords_list (ascii ''Python,, Remote,'') = [ascii ''Python'', ascii ''Remote'']"
  by (simp add: keywords_list_def str_strip_def isspace_def comma_def)

lemma make_search_query_example:
  "make_search_query [ascii ''Python'', ascii ''Remote'', ascii ''Backend''] (ascii ''BSc'') (ascii ''Remote'')
     = ascii ''Python Remote Backend BSc Remote''"
  by (simp add: make_search_query_def space_def)

section \<open>Facts about the orchestrator\<close>

lemma copy_append_get:
  "list_copy a w = (r, w1) \<Longrightarrow> list_get r (list_append r x w1) = list_get a w @ [x]"
  by (auto simp: list_copy_def new_list_def list_append_def list_get_def)

lemma run_search_query:
  "run_full_job_search ai loads jr q l ck rp w = (Inr d, w') \<Longrightarrow>
     search_query d = make_search_query (keywords d) q l"
  by (auto simp: run_full_job_search_def Let_def generate_content_def
           split: prod.splits sum.splits option.splits)

lemma run_heap_prefix:
  "take (length (heap w)) (heap (snd (run_full_job_search ai loads jr q l ck rp w))) = heap w"
  by (auto simp: run_full_job_search_def Let_def generate_content_def list_copy_def new_list_def
                 list_append_def list_get_def nth_append
           split: prod.splits sum.splits option.splits)

lemma run_outcome:
  "fst (run_full_job_search ai loads jr q l ck rp w) =
     (case ai (keyword_call (list_get rp w @ [Part_from_text (text_prompt jr q l ck)])) of
        Inl e \<Rightarrow> Inl e
      | Inr None \<Rightarrow> Inl (attribute_error ''split'')
      | Inr (Some t1) \<Rightarrow>
          (case ai (search_call [Part_from_text (search_analysis_prompt
                       (make_search_query (keywords_list t1) q l))]) of
             Inl e \<Rightarrow> Inl e
           | Inr None \<Rightarrow> Inl (attribute_error ''strip'')
           | Inr (Some t2) \<Rightarrow>
               (case loads (strip_code_fence t2) of
                  Inl e \<Rightarrow> Inl e
                | Inr parsed \<Rightarrow>
                    Inr \<lparr>search_query = make_search_query (keywords_list t1) q l,
                         keywords = keywords_list t1, results = parsed\<rparr>)))"
  by (auto simp: run_full_job_search_def Let_def generate_content_def list_copy_def new_list_def
                 list_append_def list_get_def nth_append
           split: prod.splits sum.splits option.splits)

lemma run_ai_calls:
  "ai_calls (snd (run_full_job_search ai loads jr q l ck rp w)) =
     ai_calls w @
     (let c1 = keyword_call (list_get rp w @ [Part_from_text (text_prompt jr q l ck)])
      in case ai c1 of
        Inr (Some t1) \<Rightarrow>
          [c1, search_call [Part_from_text (search_analysis_prompt
                       (make_search_query (keywords_list t1) q l))]]
      | _ \<Rightarrow> [c1])"
  by (auto simp: run_full_job_search_def Let_def generate_content_def list_copy_def new_list_def
                 list_append_def list_get_def nth_append
           split: prod.splits sum.splits option.splits)

lemma run_stdout: "stdout (snd (run_full_job_search ai loads jr q l ck rp w)) = stdout w"
  by (auto simp: run_full_job_search_def Let_def generate_content_def list_copy_def new_list_def
                 list_append_def list_get_def nth_append
           split: prod.splits sum.splits option.splits)

lemma mock_run_outcome:
  "mock_loads (strip_code_fence t2) = Inr parsed \<Longrightarrow>
   fst (run_full_job_search (mock_ai t1 t2) mock_loads jr q l ck rp w) =
     Inr \<lparr>search_query = make_search_query (keywords_list t1) q l,
          keywords = keywords_list t1, results = parsed\<rparr>"
  by (simp add: run_outcome mock_ai_def keyword_call_def search_call_def)

lemma strip_code_fence_empty_array: "strip_code_fence (ascii ''[]'') = ascii ''[]''"
  by (simp add: strip_code_fence_def str_strip_def isspace_def str_startswith_def
        str_endswith_def fence_def fence_json_def)

lemma keywords_list_example3:
  "keywords_list (ascii ''Python, Remote, Backend'') = [ascii ''Python'', ascii ''Remote'', ascii ''Backend'']"
  by (simp add: keywords_list_def str_strip_def isspace_def comma_def)

lemma length_fence: "length fence = 3"
  by (simp add: fence_def)

lemma length_fence_json: "length fence_json = 7"
  by (simp add: fence_json_def)

lemma startswith_take: "str_startswith t p \<Longrightarrow> take (length p) t = p"
  by (simp only: str_startswith_def)

lemma endswith_drop: "str_endswith t p \<Longrightarrow> drop (length t - length p) t = p"
  by (simp only: str_endswith_def)

lemma slice_between:
  assumes p: "take n t = p" and q: "drop (length t - m) t = q" and len: "n + m \<le> length t"
  shows "t = p @ str_slice t n m @ q"
proof -
  let ?u = "take (length t - m) t"
  have le: "n \<le> length t - m" using len by linarith
  have "take n ?u = take (min n (length t - m)) t" by (rule take_take)
  also have "\<dots> = take n t" using le by (simp only: min_absorb1)
  finally have "take n ?u = p" using p by simp
  then have u: "?u = p @ drop n ?u" by (metis append_take_drop_id)
  have "t = ?u @ q" using q by (metis append_take_drop_id)
  then have "t = (p @ drop n ?u) @ q" using u by simp
  then show ?thesis by (simp add: str_slice_def)
qed

lemma json_fenced_length:
  assumes s: "str_startswith t fence_json" and e: "str_endswith t fence"
  shows "10 \<le> length t"
proof (rule ccontr)
  assume "\<not> 10 \<le> length t"
  then have lt: "length t < 10" by simp
  have tk: "take 7 t = fence_json"
    using startswith_take [OF s] by (simp only: length_fence_json)
  then have "length (take 7 t) = 7" by (simp only: length_fence_json)
  then have ge: "7 \<le> length t" by simp
  have dr: "drop (length t - 3) t = fence"
    using endswith_drop [OF e] by (simp only: length_fence)
  have "drop (length t - 3) t ! 0 = t ! (length t - 3)" using ge by simp
  with dr have a: "t ! (length t - 3) = fence ! 0" by simp
  have "take 7 t ! (length t - 3) = t ! (length t - 3)" using lt ge by simp
  with tk have b: "t ! (length t - 3) = fence_json ! (length t - 3)" by simp
  from lt ge consider "length t = 7" | "length t = 8" | "length t = 9" by linarith
  then show False
  proof cases
    case 1 with a b show False by (simp add: fence_def fence_json_def)
  next
    case 2 with a b show False by (simp add: fence_def fence_json_def)
  next
    case 3 with a b show False by (simp add: fence_def fence_json_def)
  qed
qed

lemma json_fenced_body:
  assumes s: "str_startswith t fence_json" and e: "str_endswith t fence"
  shows "t = fence_json @ str_slice t 7 3 @ fence"
proof -
  have len: "7 + 3 \<le> length t" using json_fenced_length [OF s e] by simp
  have p: "take 7 t = fence_json" using startswith_take [OF s] by (simp only: length_fence_json)
  have q: "drop (length t - 3) t = fence" using endswith_drop [OF e] by (simp only: length_fence)
  show ?thesis by (rule slice_between [OF p q len])
qed

lemma plain_fenced_body:
  assumes s: "str_startswith t fence" and e: "str_endswith t fence" and len: "6 \<le> length t"
  shows "t = fence @ str_slice t 3 3 @ fence"
proof -
  have len': "3 + 3 \<le> length t" using len by simp
  have p: "take 3 t = fence" using startswith_take [OF s] by (simp only: length_fence)
  have q: "drop (length t - 3) t = fence" using endswith_drop [OF e] by (simp only: length_fence)
  show ?thesis by (rule slice_between [OF p q len'])
qed

lemma short_slice_empty: "length t < 6 \<Longrightarrow> str_slice t 3 3 = []"
  by (simp add: str_slice_def)

lemma str_strip_Nil: "str_strip [] = []"
  by (simp add: str_strip_def)

lemma json_start_plain_start: "str_startswith t fence_json \<Longrightarrow> str_startswith t fence"
proof -
  assume s: "str_startswith t fence_json"
  have "take 7 t = fence_json" using startswith_take [OF s] by (simp only: length_fence_json)
  then have "take 3 (take 7 t) = take 3 fence_json" by simp
  then have "take 3 t = fence" by (simp add: fence_def fence_json_def)
  then show ?thesis by (simp add: str_startswith_def length_fence)
qed

lemma strip_code_fence_json:
  assumes "str_startswith (str_strip raw) fence_json" and "str_endswith (str_strip raw) fence"
  shows "\<exists>body. str_strip raw = fence_json @ body @ fence \<and> strip_code_fence raw = str_strip body"
proof -
  have "strip_code_fence raw = str_strip (str_slice (str_strip raw) 7 3)"
    using assms by (simp add: strip_code_fence_def)
  with json_fenced_body [OF assms] show ?thesis by blast
qed

lemma strip_code_fence_plain:
  assumes n: "\<not> (str_startswith (str_strip raw) fence_json \<and> str_endswith (str_strip raw) fence)"
    and s: "str_startswith (str_strip raw) fence" and e: "str_endswith (str_strip raw) fence"
    and len: "6 \<le> length (str_strip raw)"
  shows "\<exists>body. str_strip raw = fence @ body @ fence \<and> strip_code_fence raw = str_strip body"
proof -
  have "strip_code_fence raw = str_strip (str_slice (str_strip raw) 3 3)"
    using n s e by (simp add: strip_code_fence_def)
  with plain_fenced_body [OF s e len] show ?thesis by blast
qed

lemma strip_code_fence_short:
  assumes n: "\<not> (str_startswith (str_strip raw) fence_json \<and> str_endswith (str_strip raw) fence)"
    and s: "str_startswith (str_strip raw) fence" and e: "str_endswith (str_strip raw) fence"
    and len: "length (str_strip raw) < 6"
  shows "strip_code_fence raw = []"
  using n s e short_slice_empty [OF len] by (simp add: strip_code_fence_def str_strip_Nil)

lemma strip_code_fence_unfenced:
  assumes n: "\<not> (str_startswith (str_strip raw) fence \<and> str_endswith (str_strip raw) fence)"
  shows "strip_code_fence raw = str_strip raw"
proof -
  have "\<not> (str_startswith (str_strip raw) fence_json \<and> str_endswith (str_strip raw) fence)"
    using n json_start_plain_start by blast
  then show ?thesis using n by (auto simp: strip_code_fence_def Let_def)
qed

lemma run_parses_stripped:
  assumes "ai (keyword_call (list_get rp w @ [Part_from_text (text_prompt jr q l ck)])) = Inr (Some t1)"
    and "ai (search_call [Part_from_text (search_analysis_prompt
                (make_search_query (keywords_list t1) q l))]) = Inr (Some raw)"
  shows "fst (run_full_job_search ai loads jr q l ck rp w) =
     (case loads (strip_code_fence raw) of
        Inl e \<Rightarrow> Inl e
      | Inr parsed \<Rightarrow> Inr \<lparr>search_query = make_search_query (keywords_list t1) q l,
                          keywords = keywords_list t1, results = parsed\<rparr>)"
  using assms by (simp add: run_outcome)

lemmas fence_eval = strip_code_fence_def str_strip_def isspace_def str_startswith_def
  str_endswith_def str_slice_def fence_def fence_json_def

lemma sample_json_fenced:
  "str_startswith (str_strip (ascii ''```json\<newline>[]\<newline>```'')) fence_json"
  "str_endswith (str_strip (ascii ''```json\<newline>[]\<newline>```'')) fence"
  "strip_code_fence (ascii ''```json\<newline>[]\<newline>```'') = ascii ''[]''"
  "str_slice (str_strip (ascii ''```json\<newline>[]\<newline>```'')) 7 3 = ascii ''\<newline>[]\<newline>''"
  by (simp_all add: fence_eval)

lemma sample_plain_fenced:
  "\<not> str_startswith (str_strip (ascii ''```[]```'')) fence_json"
  "str_startswith (str_strip (ascii ''```[]```'')) fence"
  "str_endswith (str_strip (ascii ''```[]```'')) fence"
  "6 \<le> length (str_strip (ascii ''```[]```''))"
  "strip_code_fence (ascii ''```[]```'') = ascii ''[]''"
  by (simp_all add: fence_eval)

lemma sample_short_fenced:
  "\<not> str_startswith (str_strip (ascii ''```'')) fence_json"
  "str_startswith (str_strip (ascii ''```'')) fence"
  "str_endswith (str_strip (ascii ''```'')) fence"
  "length (str_strip (ascii ''```'')) = 3"
  "strip_code_fence (ascii ''```'') = []"
  by (simp_all add: fence_eval)

lemma sample_unfenced:
  "\<not> str_startswith (str_strip (ascii '' [] '')) fence"
  "str_strip (ascii '' [] '') = ascii ''[]''"
  by (simp_all add: fence_eval)

lemma process_resume_file_None:
  "process_resume_file None w = (Inr (length (heap w)), w\<lparr>heap := heap w @ [[]]\<rparr>)"
  by (simp add: process_resume_file_def new_list_def)

lemma process_resume_file_read_failed:
  "file_read f = Inl e \<Longrightarrow> process_resume_file (Some f) w = (Inl e, snd (new_list [] w))"
  by (simp add: process_resume_file_def new_list_def)

lemma process_resume_file_read:
  "file_read f = Inr b \<Longrightarrow>
   process_resume_file (Some f) w =
     (Inr (Suc (length (heap w))),
      w\<lparr>heap := heap w @ [[], if b \<noteq> [] then [Part_from_bytes b (content_type f)] else []]\<rparr>)"
  by (simp add: process_resume_file_def new_list_def get_gemini_parts_def)

lemma process_resume_file_frame:
  "ai_calls (snd (process_resume_file rf w)) = ai_calls w"
  "stdout (snd (process_resume_file rf w)) = stdout w"
  by (auto simp: process_resume_file_def new_list_def get_gemini_parts_def Let_def
           split: option.splits sum.splits prod.splits)

lemma search_jobs_after_read:
  assumes "process_resume_file rf w = (Inr rp, w1)"
  shows "search_jobs ai loads jr q l ck rf w =
     (case run_full_job_search ai loads jr q l ck rp w1 of
        (Inr d, w2) \<Rightarrow> (JSONResponse 200 (SearchData d), w2)
      | (Inl e, w2) \<Rightarrow>
          (HTTPException 500 failure_detail,
           w2\<lparr>stdout := stdout w2 @ [ascii ''Gemini/Search Error: '' @ exn_str e]\<rparr>))"
  using assms by (simp add: search_jobs_def)

lemma search_jobs_failed:
  assumes "process_resume_file rf w = (Inr rp, w1)"
    and "run_full_job_search ai loads jr q l ck rp w1 = (Inl e, w2)"
  shows "search_jobs ai loads jr q l ck rf w =
     (HTTPException 500 failure_detail,
      w2\<lparr>stdout := stdout w2 @ [ascii ''Gemini/Search Error: '' @ exn_str e]\<rparr>)"
  using assms by (simp add: search_jobs_after_read)

lemma search_jobs_succeeded:
  assumes "process_resume_file rf w = (Inr rp, w1)"
    and "run_full_job_search ai loads jr q l ck rp w1 = (Inr d, w2)"
  shows "search_jobs ai loads jr q l ck rf w = (JSONResponse 200 (SearchData d), w2)"
  using assms by (simp add: search_jobs_after_read)

lemma search_jobs_read_failed:
  assumes "file_read f = Inl e"
  shows "search_jobs ai loads jr q l ck (Some f) w =
     (JSONResponse 500 (Message (ascii ''File reading failed: '' @ exn_str e)), snd (new_list [] w))"
  using process_resume_file_read_failed [OF assms, of w] by (simp add: search_jobs_def)

lemma search_jobs_ai_calls:
  assumes "process_resume_file rf w = (Inr rp, w1)"
  shows "ai_calls (snd (search_jobs ai loads jr q l ck rf w)) =
     ai_calls (snd (run_full_job_search ai loads jr q l ck rp w1))"
  using assms by (simp add: search_jobs_after_read split: prod.splits sum.splits)

lemma search_jobs_response:
  assumes "process_resume_file rf w = (Inr rp, w1)"
  shows "fst (search_jobs ai loads jr q l ck rf w) =
     (case fst (run_full_job_search ai loads jr q l ck rp w1) of
        Inr d \<Rightarrow> JSONResponse 200 (SearchData d)
      | Inl e \<Rightarrow> HTTPException 500 failure_detail)"
  using assms by (simp add: search_jobs_after_read split: prod.splits sum.splits)

lemma search_jobs_stdout:
  assumes "process_resume_file rf w = (Inr rp, w1)"
  shows "stdout (snd (search_jobs ai loads jr q l ck rf w)) =
     (case fst (run_full_job_search ai loads jr q l ck rp w1) of
        Inr d \<Rightarrow> stdout w
      | Inl e \<Rightarrow> stdout w @ [ascii ''Gemini/Search Error: '' @ exn_str e])"
proof -
  have "stdout w1 = stdout w"
    using process_resume_file_frame(2) [of rf w] assms by simp
  then show ?thesis
    using assms run_stdout [of ai loads jr q l ck rp w1]
    by (auto simp: search_jobs_after_read split: prod.splits sum.splits)
qed

lemma run_makes_a_call:
  "ai_calls (snd (run_full_job_search ai loads jr q l ck rp w)) \<noteq> ai_calls w"
  by (simp add: run_ai_calls Let_def split: sum.splits option.splits)

lemma run_failure_kinds:
  assumes "fst (run_full_job_search ai loads jr q l ck rp w) = Inl e"
  shows "ai (keyword_call (list_get rp w @ [Part_from_text (text_prompt jr q l ck)])) = Inl e
     \<or> (ai (keyword_call (list_get rp w @ [Part_from_text (text_prompt jr q l ck)])) = Inr None
          \<and> e = attribute_error ''split'')
     \<or> (\<exists>t1. ai (keyword_call (list_get rp w @ [Part_from_text (text_prompt jr q l ck)])) = Inr (Some t1)
          \<and> (ai (search_call [Part_from_text (search_analysis_prompt
                   (make_search_query (keywords_list t1) q l))]) = Inl e
             \<or> (ai (search_call [Part_from_text (search_analysis_prompt
                   (make_search_query (keywords_list t1) q l))]) = Inr None
                  \<and> e = attribute_error ''strip'')
             \<or> (\<exists>t2. ai (search_call [Part_from_text (search_analysis_prompt
                   (make_search_query (keywords_list t1) q l))]) = Inr (Some t2)
                  \<and> loads (strip_code_fence t2) = Inl e)))"
  using assms by (auto simp: run_outcome split: sum.splits option.splits)

lemma run_invalid_json:
  assumes "ai (keyword_call (list_get rp w @ [Part_from_text (text_prompt jr q l ck)])) = Inr (Some t1)"
    and "ai (search_call [Part_from_text (search_analysis_prompt
                (make_search_query (keywords_list t1) q l))]) = Inr (Some t2)"
    and "loads (strip_code_fence t2) = Inl e"
  shows "fst (run_full_job_search ai loads jr q l ck rp w) = Inl e"
  using assms by (simp add: run_outcome)

lemma list_get_after_None:
  "list_get (length (heap w)) (w\<lparr>heap := heap w @ [[]]\<rparr>) = []"
  by (simp add: list_get_def)

lemma list_get_after_read:
  "list_get (Suc (length (heap w))) (w\<lparr>heap := heap w @ [[], xs]\<rparr>) = xs"
  by (simp add: list_get_def nth_append)

lemma run_ai_calls_first:
  "\<exists>rest. ai_calls (snd (run_full_job_search ai loads jr q l ck rp w)) =
     ai_calls w @ keyword_call (list_get rp w @ [Part_from_text (text_prompt jr q l ck)]) # rest"
  by (simp add: run_ai_calls Let_def split: sum.splits option.splits)

lemma search_jobs_None_calls:
  "\<exists>rest. ai_calls (snd (search_jobs ai loads jr q l ck None w)) =
     ai_calls w @ keyword_call [Part_from_text (text_prompt jr q l ck)] # rest"
proof -
  note p = process_resume_file_None [of w]
  have "ai_calls (snd (search_jobs ai loads jr q l ck None w)) =
     ai_calls (snd (run_full_job_search ai loads jr q l ck (length (heap w)) (w\<lparr>heap := heap w @ [[]]\<rparr>)))"
    by (rule search_jobs_ai_calls [OF p])
  moreover have "\<exists>rest. ai_calls (snd (run_full_job_search ai loads jr q l ck (length (heap w))
        (w\<lparr>heap := heap w @ [[]]\<rparr>))) =
     ai_calls (w\<lparr>heap := heap w @ [[]]\<rparr>) @
       keyword_call (list_get (length (heap w)) (w\<lparr>heap := heap w @ [[]]\<rparr>)
         @ [Part_from_text (text_prompt jr q l ck)]) # rest"
    by (rule run_ai_calls_first)
  ultimately show ?thesis by (simp add: list_get_after_None)
qed

lemma search_jobs_None_keywords:
  assumes "fst (search_jobs ai loads jr q l ck None w) = JSONResponse 200 (SearchData d)"
  shows "\<exists>t1. ai (keyword_call [Part_from_text (text_prompt jr q l ck)]) = Inr (Some t1)
     \<and> keywords d = keywords_list t1"
proof -
  note p = process_resume_file_None [of w]
  have "(case fst (run_full_job_search ai loads jr q l ck (length (heap w)) (w\<lparr>heap := heap w @ [[]]\<rparr>)) of
        Inr d \<Rightarrow> JSONResponse 200 (SearchData d)
      | Inl e \<Rightarrow> HTTPException 500 failure_detail) = JSONResponse 200 (SearchData d)"
    using search_jobs_response [OF p, of ai loads jr q l ck] assms by simp
  then have "fst (run_full_job_search ai loads jr q l ck (length (heap w)) (w\<lparr>heap := heap w @ [[]]\<rparr>)) = Inr d"
    by (simp split: sum.splits)
  then show ?thesis
    by (auto simp: run_outcome list_get_after_None split: sum.splits option.splits)
qed

lemma mock_search_jobs_None:
  assumes "mock_loads (strip_code_fence t2) = Inr parsed"
  shows "fst (search_jobs (mock_ai t1 t2) mock_loads jr q l ck None w) =
     JSONResponse 200 (SearchData \<lparr>search_query = make_search_query (keywords_list t1) q l,
                                   keywords = keywords_list t1, results = parsed\<rparr>)"
  using search_jobs_response [OF process_resume_file_None, of "mock_ai t1 t2" mock_loads jr q l ck w]
    mock_run_outcome [OF assms, of t1 jr q l ck]
  by simp

lemma mock_loads_empty_array: "mock_loads (strip_code_fence (ascii ''[]'')) = Inr (JArray [])"
  by (simp only: strip_code_fence_empty_array) (simp add: mock_loads_def)

lemma run_heap:
  "\<exists>rest. heap (snd (run_full_job_search ai loads jr q l ck rp w)) =
     heap w @ (list_get rp w @ [Part_from_text (text_prompt jr q l ck)]) # rest"
  by (auto simp: run_full_job_search_def Let_def generate_content_def list_copy_def new_list_def
                 list_append_def list_get_def nth_append
           split: prod.splits sum.splits option.splits)

lemma run_keeps_list:
  assumes "rp < length (heap w)"
  shows "list_get rp (snd (run_full_job_search ai loads jr q l ck rp w)) = list_get rp w"
proof -
  obtain rest where "heap (snd (run_full_job_search ai loads jr q l ck rp w)) =
     heap w @ (list_get rp w @ [Part_from_text (text_prompt jr q l ck)]) # rest"
    using run_heap by blast
  then show ?thesis using assms by (simp add: list_get_def nth_append)
qed

lemma run_appends_to_copy:
  "list_get (length (heap w)) (snd (run_full_job_search ai loads jr q l ck rp w)) =
     list_get rp w @ [Part_from_text (text_prompt jr q l ck)]"
proof -
  obtain rest where "heap (snd (run_full_job_search ai loads jr q l ck rp w)) =
     heap w @ (list_get rp w @ [Part_from_text (text_prompt jr q l ck)]) # rest"
    using run_heap by blast
  then show ?thesis by (simp add: list_get_def)
qed

lemma run_same_contents:
  assumes "list_get rp w = list_get rp' w'"
  shows "fst (run_full_job_search ai loads jr q l ck rp w)
           = fst (run_full_job_search ai loads jr q l ck rp' w')"
  using assms by (simp add: run_outcome)

lemma run_same_calls:
  assumes "list_get rp w = list_get rp' w'" and "ai_calls w = ai_calls w'"
  shows "ai_calls (snd (run_full_job_search ai loads jr q l ck rp w))
           = ai_calls (snd (run_full_job_search ai loads jr q l ck rp' w'))"
  using assms by (simp add: run_ai_calls)

lemma get_gemini_parts_empty:
  "list_get (fst (get_gemini_parts [] m w)) (snd (get_gemini_parts [] m w)) = []"
  by (simp add: get_gemini_parts_def new_list_def list_get_def)

lemma get_gemini_parts_nonempty:
  "b \<noteq> [] \<Longrightarrow>
   list_get (fst (get_gemini_parts b m w)) (snd (get_gemini_parts b m w)) = [Part_from_bytes b m]"
  by (simp add: get_gemini_parts_def new_list_def list_get_def)

section \<open>The claims\<close>

text \<open>
  Claim C2. The keyword list is the response text split on commas, each piece trimmed,
  the pieces that are empty after trimming discarded, in the original order. The pieces
  are the comma-free segments of the text (joined with commas they give the text back),
  trimming removes only whitespace at both ends, and no keyword is empty or begins or
  ends with whitespace. The response \<^verbatim>\<open>"Python,, Remote,"\<close> gives the keywords
  \<^verbatim>\<open>["Python", "Remote"]\<close>.
\<close>

theorem keywords_list_split_trim_discard:
  "keywords_list t = filter (\<lambda>k. k \<noteq> []) (map str_strip (str_split comma t))
   \<and> str_join [comma] (str_split comma t) = t
   \<and> (\<forall>p \<in> set (str_split comma t). comma \<notin> set p)
   \<and> (\<forall>p. \<exists>a b. p = a @ str_strip p @ b \<and> (\<forall>c \<in> set a. isspace c) \<and> (\<forall>c \<in> set b. isspace c))
   \<and> (\<forall>k \<in> set (keywords_list t). k \<noteq> [] \<and> \<not> isspace (hd k) \<and> \<not> isspace (last k))
   \<and> keywords_list (ascii ''Python,, Remote,'') = [ascii ''Python'', ascii ''Remote'']"
proof -
  have nosep: "\<forall>p \<in> set (str_split comma t). comma \<notin> set p"
    using str_split_no_sep by blast
  have decomp: "\<forall>p. \<exists>a b. p = a @ str_strip p @ b \<and> (\<forall>c \<in> set a. isspace c) \<and> (\<forall>c \<in> set b. isspace c)"
    using str_strip_decomp by blast
  show ?thesis
    by (intro conjI) (rule keywords_list_alt str_join_split nosep decomp keywords_list_trimmed
          keywords_list_example)+
qed

theorem keywords_list_split_trim_discard_witness:
  "ascii ''Remote'' \<in> set (keywords_list (ascii ''Python,, Remote,''))
   \<and> ascii ''Remote'' \<noteq> []
   \<and> \<not> isspace (hd (ascii ''Remote'')) \<and> \<not> isspace (last (ascii ''Remote''))
   \<and> ascii '' Remote'' \<in> set (str_split comma (ascii ''Python,, Remote,''))
   \<and> comma \<notin> set (ascii '' Remote'')"
proof -
  note inst = keywords_list_split_trim_discard [of "ascii ''Python,, Remote,''"]
  have kw: "ascii ''Remote'' \<in> set (keywords_list (ascii ''Python,, Remote,''))"
    using keywords_list_example by simp
  have piece: "ascii '' Remote'' \<in> set (str_split comma (ascii ''Python,, Remote,''))"
    by (simp add: comma_def)
  from inst kw have "ascii ''Remote'' \<noteq> [] \<and> \<not> isspace (hd (ascii ''Remote''))
      \<and> \<not> isspace (last (ascii ''Remote''))"
    by blast
  moreover from inst piece have "comma \<notin> set (ascii '' Remote'')"
    by blast
  ultimately show ?thesis using kw piece by blast
qed

text \<open>
  Claim C1. The search query is the keywords joined by single spaces, then the
  qualification, then the location, each separated by one space. The keywords
  \<^verbatim>\<open>["Python", "Remote", "Backend"]\<close> with qualification \<^verbatim>\<open>"BSc"\<close> and location
  \<^verbatim>\<open>"Remote"\<close> give \<^verbatim>\<open>"Python Remote Backend BSc Remote"\<close>. Every result the orchestrator
  returns carries the query built from its own keyword list and the request's
  qualification and location.
\<close>

theorem search_query_construction:
  "(kws \<noteq> [] \<longrightarrow> make_search_query kws q l = str_join space kws @ space @ q @ space @ l)
   \<and> make_search_query [] q l = q @ space @ l
   \<and> space = ascii '' ''
   \<and> make_search_query [ascii ''Python'', ascii ''Remote'', ascii ''Backend''] (ascii ''BSc'') (ascii ''Remote'')
       = ascii ''Python Remote Backend BSc Remote''
   \<and> (\<forall>d w'. run_full_job_search ai loads jr q l ck rp w = (Inr d, w') \<longrightarrow>
         search_query d = make_search_query (keywords d) q l)"
proof -
  have nonempty: "kws \<noteq> [] \<longrightarrow> make_search_query kws q l = str_join space kws @ space @ q @ space @ l"
    using str_join_append_two [of kws] by (simp add: make_search_query_def)
  have empty: "make_search_query [] q l = q @ space @ l"
    by (simp add: make_search_query_def)
  have field: "\<forall>d w'. run_full_job_search ai loads jr q l ck rp w = (Inr d, w') \<longrightarrow>
         search_query d = make_search_query (keywords d) q l"
    using run_search_query by blast
  show ?thesis
    by (intro conjI) (rule nonempty empty space_def make_search_query_example field)+
qed

theorem search_query_construction_witness:
  "fst (run_full_job_search (mock_ai (ascii ''Python, Remote, Backend'') (ascii ''[]'')) mock_loads
          (ascii ''Engineer'') (ascii ''BSc'') (ascii ''Remote'') [] 0 (snd (new_list [] world0)))
     = Inr \<lparr>search_query = ascii ''Python Remote Backend BSc Remote'',
            keywords = [ascii ''Python'', ascii ''Remote'', ascii ''Backend''],
            results = JArray []\<rparr>
   \<and> make_search_query [ascii ''Python'', ascii ''Remote'', ascii ''Backend''] (ascii ''BSc'') (ascii ''Remote'')
       = str_join space [ascii ''Python'', ascii ''Remote'', ascii ''Backend'']
           @ space @ ascii ''BSc'' @ space @ ascii ''Remote''"
proof -
  let ?run = "run_full_job_search (mock_ai (ascii ''Python, Remote, Backend'') (ascii ''[]'')) mock_loads
          (ascii ''Engineer'') (ascii ''BSc'') (ascii ''Remote'') [] 0 (snd (new_list [] world0))"
  let ?kws = "[ascii ''Python'', ascii ''Remote'', ascii ''Backend'']"
  let ?d = "\<lparr>search_query = make_search_query ?kws (ascii ''BSc'') (ascii ''Remote''),
            keywords = ?kws, results = JArray []\<rparr>"
  have loads: "mock_loads (strip_code_fence (ascii ''[]'')) = Inr (JArray [])"
    by (simp only: strip_code_fence_empty_array) (simp add: mock_loads_def)
  have out: "fst ?run = Inr ?d"
    using mock_run_outcome [OF loads] keywords_list_example3 by simp
  then have run: "?run = (Inr ?d, snd ?run)"
    by (simp add: prod_eq_iff)
  note inst = search_query_construction [of ?kws "ascii ''BSc''" "ascii ''Remote''"
      "mock_ai (ascii ''Python, Remote, Backend'') (ascii ''[]'')" mock_loads "ascii ''Engineer''" "[]" 0
      "snd (new_list [] world0)"]
  have ne: "?kws \<noteq> []" by simp
  from inst ne have q: "make_search_query ?kws (ascii ''BSc'') (ascii ''Remote'')
       = str_join space ?kws @ space @ ascii ''BSc'' @ space @ ascii ''Remote''" by blast
  from inst have ex: "make_search_query ?kws (ascii ''BSc'') (ascii ''Remote'') = ascii ''Python Remote Backend BSc Remote''"
    by blast
  from inst run have "search_query ?d = make_search_query (keywords ?d) (ascii ''BSc'') (ascii ''Remote'')"
    by blast
  show ?thesis using out q ex by simp
qed

text \<open>
  Claim C3, as amended. The response text is first trimmed. If it starts with the seven
  characters of the fence tagged json and ends with the three of a fence, these seven and
  three characters are removed and what is left is trimmed again; this check comes
  first. Otherwise, if it starts and ends with a plain fence and has at least six
  characters, three characters are removed at each end and what is left is trimmed again;
  with fewer than six characters the result is the empty text. Otherwise the trimmed
  text is kept. The result is the text handed to the parser.
\<close>

theorem strip_code_fence_cases:
  "(str_startswith (str_strip raw) fence_json \<and> str_endswith (str_strip raw) fence \<longrightarrow>
      (\<exists>body. str_strip raw = fence_json @ body @ fence \<and> strip_code_fence raw = str_strip body))
   \<and> (\<not> (str_startswith (str_strip raw) fence_json \<and> str_endswith (str_strip raw) fence)
        \<and> str_startswith (str_strip raw) fence \<and> str_endswith (str_strip raw) fence
        \<and> 6 \<le> length (str_strip raw) \<longrightarrow>
      (\<exists>body. str_strip raw = fence @ body @ fence \<and> strip_code_fence raw = str_strip body))
   \<and> (\<not> (str_startswith (str_strip raw) fence_json \<and> str_endswith (str_strip raw) fence)
        \<and> str_startswith (str_strip raw) fence \<and> str_endswith (str_strip raw) fence
        \<and> length (str_strip raw) < 6 \<longrightarrow>
      strip_code_fence raw = [])
   \<and> (\<not> (str_startswith (str_strip raw) fence \<and> str_endswith (str_strip raw) fence) \<longrightarrow>
      strip_code_fence raw = str_strip raw)
   \<and> length fence_json = 7 \<and> length fence = 3
   \<and> (ai (keyword_call (list_get rp w @ [Part_from_text (text_prompt jr q l ck)])) = Inr (Some t1)
        \<and> ai (search_call [Part_from_text (search_analysis_prompt
                (make_search_query (keywords_list t1) q l))]) = Inr (Some raw) \<longrightarrow>
      fst (run_full_job_search ai loads jr q l ck rp w) =
        (case loads (strip_code_fence raw) of
           Inl e \<Rightarrow> Inl e
         | Inr parsed \<Rightarrow> Inr \<lparr>search_query = make_search_query (keywords_list t1) q l,
                             keywords = keywords_list t1, results = parsed\<rparr>))"
  (is "?json \<and> ?plain \<and> ?short \<and> ?none \<and> ?l7 \<and> ?l3 \<and> ?parse")
proof -
  have 1: ?json using strip_code_fence_json by blast
  have 2: ?plain using strip_code_fence_plain [of raw] by blast
  have 3: ?short using strip_code_fence_short [of raw] by blast
  have 4: ?none using strip_code_fence_unfenced [of raw] by blast
  have 5: ?parse using run_parses_stripped [of ai rp w jr q l ck t1 raw loads] by blast
  show ?thesis
    by (intro conjI) (rule 1 2 3 4 5 length_fence_json length_fence)+
qed

theorem strip_code_fence_cases_witness:
  "str_startswith (str_strip (ascii ''```json\<newline>[]\<newline>```'')) fence_json
   \<and> str_endswith (str_strip (ascii ''```json\<newline>[]\<newline>```'')) fence
   \<and> (\<exists>body. str_strip (ascii ''```json\<newline>[]\<newline>```'') = fence_json @ body @ fence
         \<and> strip_code_fence (ascii ''```json\<newline>[]\<newline>```'') = str_strip body)
   \<and> strip_code_fence (ascii ''```json\<newline>[]\<newline>```'') = ascii ''[]''
   \<and> str_startswith (str_strip (ascii ''```[]```'')) fence
   \<and> \<not> str_startswith (str_strip (ascii ''```[]```'')) fence_json
   \<and> (\<exists>body. str_strip (ascii ''```[]```'') = fence @ body @ fence
         \<and> strip_code_fence (ascii ''```[]```'') = str_strip body)
   \<and> strip_code_fence (ascii ''```[]```'') = ascii ''[]''
   \<and> length (str_strip (ascii ''```'')) < 6
   \<and> strip_code_fence (ascii ''```'') = []
   \<and> \<not> str_startswith (str_strip (ascii '' [] '')) fence
   \<and> strip_code_fence (ascii '' [] '') = str_strip (ascii '' [] '')
   \<and> results (projr (fst (run_full_job_search
               (mock_ai (ascii ''Python'') (ascii ''```json\<newline>[]\<newline>```''))
               mock_loads [] [] [] [] 0 (snd (new_list [] world0))))) = JArray []"
proof -
  have a: "\<exists>body. str_strip (ascii ''```json\<newline>[]\<newline>```'') = fence_json @ body @ fence
         \<and> strip_code_fence (ascii ''```json\<newline>[]\<newline>```'') = str_strip body"
    using strip_code_fence_cases [of "ascii ''```json\<newline>[]\<newline>```''", THEN conjunct1]
      sample_json_fenced(1,2)
    by blast
  have b: "\<exists>body. str_strip (ascii ''```[]```'') = fence @ body @ fence
         \<and> strip_code_fence (ascii ''```[]```'') = str_strip body"
    using strip_code_fence_cases [of "ascii ''```[]```''", THEN conjunct2, THEN conjunct1]
      sample_plain_fenced(1,2,3,4)
    by blast
  have short: "length (str_strip (ascii ''```'')) < 6"
    using sample_short_fenced(4) by simp
  have c: "strip_code_fence (ascii ''```'') = []"
    using strip_code_fence_cases [of "ascii ''```''", THEN conjunct2, THEN conjunct2, THEN conjunct1]
      sample_short_fenced(1,2,3) short
    by blast
  have d: "strip_code_fence (ascii '' [] '') = str_strip (ascii '' [] '')"
    using strip_code_fence_cases [of "ascii '' [] ''", THEN conjunct2, THEN conjunct2,
        THEN conjunct2, THEN conjunct1]
      sample_unfenced(1)
    by blast
  have k: "mock_ai (ascii ''Python'') (ascii ''```json\<newline>[]\<newline>```'')
             (keyword_call (list_get 0 (snd (new_list [] world0))
                @ [Part_from_text (text_prompt [] [] [] [])])) = Inr (Some (ascii ''Python''))"
    by (simp add: mock_ai_def keyword_call_def)
  have f: "mock_ai (ascii ''Python'') (ascii ''```json\<newline>[]\<newline>```'')
             (search_call [Part_from_text (search_analysis_prompt
                (make_search_query (keywords_list (ascii ''Python'')) [] []))])
           = Inr (Some (ascii ''```json\<newline>[]\<newline>```''))"
    by (simp add: mock_ai_def search_call_def)
  have parsed: "mock_loads (strip_code_fence (ascii ''```json\<newline>[]\<newline>```'')) = Inr (JArray [])"
    using sample_json_fenced(3) by (simp add: mock_loads_def)
  have "fst (run_full_job_search (mock_ai (ascii ''Python'') (ascii ''```json\<newline>[]\<newline>```''))
               mock_loads [] [] [] [] 0 (snd (new_list [] world0)))
        = (case mock_loads (strip_code_fence (ascii ''```json\<newline>[]\<newline>```'')) of
             Inl e \<Rightarrow> Inl e
           | Inr parsed \<Rightarrow>
               Inr \<lparr>search_query = make_search_query (keywords_list (ascii ''Python'')) [] [],
                     keywords = keywords_list (ascii ''Python''), results = parsed\<rparr>)"
    using strip_code_fence_cases [of "ascii ''```json\<newline>[]\<newline>```''"
        "mock_ai (ascii ''Python'') (ascii ''```json\<newline>[]\<newline>```'')" 0
        "snd (new_list [] world0)" "[]" "[]" "[]" "[]" "ascii ''Python''" mock_loads] k f
    by blast
  with parsed have e: "results (projr (fst (run_full_job_search
               (mock_ai (ascii ''Python'') (ascii ''```json\<newline>[]\<newline>```''))
               mock_loads [] [] [] [] 0 (snd (new_list [] world0))))) = JArray []"
    by simp
  show ?thesis
    by (intro conjI)
      (rule a b c d e short sample_json_fenced sample_plain_fenced sample_short_fenced
         sample_unfenced)+
qed

theorem strip_code_fence_exact_counterexample:
  "str_startswith (str_strip (ascii ''```json\<newline>[]\<newline>```'')) fence_json
   \<and> str_endswith (str_strip (ascii ''```json\<newline>[]\<newline>```'')) fence
   \<and> str_slice (str_strip (ascii ''```json\<newline>[]\<newline>```'')) 7 3 = ascii ''\<newline>[]\<newline>''
   \<and> strip_code_fence (ascii ''```json\<newline>[]\<newline>```'') = ascii ''[]''
   \<and> strip_code_fence (ascii ''```json\<newline>[]\<newline>```'')
        \<noteq> str_slice (str_strip (ascii ''```json\<newline>[]\<newline>```'')) 7 3
   \<and> str_startswith (str_strip (ascii ''```'')) fence
   \<and> str_endswith (str_strip (ascii ''```'')) fence
   \<and> \<not> str_startswith (str_strip (ascii ''```'')) fence_json
   \<and> length (str_strip (ascii ''```'')) = 3
   \<and> length (strip_code_fence (ascii ''```'')) + 3 + 3 \<noteq> length (str_strip (ascii ''```''))"
proof -
  have ne: "strip_code_fence (ascii ''```json\<newline>[]\<newline>```'')
        \<noteq> str_slice (str_strip (ascii ''```json\<newline>[]\<newline>```'')) 7 3"
    using sample_json_fenced(3,4) by simp
  have len: "length (strip_code_fence (ascii ''```'')) + 3 + 3 \<noteq> length (str_strip (ascii ''```''))"
    using sample_short_fenced(4,5) by simp
  show ?thesis
    by (intro conjI) (rule ne len sample_json_fenced sample_short_fenced)+
qed



text \<open>
  Claim C5. Whatever exception the orchestrator raises after the file was read (from
  either AI call, from a response without text, or from the parser), the handler prints
  one line with the exception on standard output and raises the HTTP 500 error whose
  detail is one fixed message; the response does not depend on the exception.
\<close>

theorem orchestration_failure_opaque:
  assumes "process_resume_file rf w = (Inr rp, w1)"
    and "run_full_job_search ai loads jr q l ck rp w1 = (Inl e, w2)"
  shows "search_jobs ai loads jr q l ck rf w =
       (HTTPException 500 failure_detail,
        w2\<lparr>stdout := stdout w2 @ [ascii ''Gemini/Search Error: '' @ exn_str e]\<rparr>)
     \<and> stdout w2 = stdout w
     \<and> failure_detail
         = ascii ''The AI search service failed to process the request. Try refining your query.''
     \<and> (ai (keyword_call (list_get rp w1 @ [Part_from_text (text_prompt jr q l ck)])) = Inl e
        \<or> (ai (keyword_call (list_get rp w1 @ [Part_from_text (text_prompt jr q l ck)])) = Inr None
             \<and> e = attribute_error ''split'')
        \<or> (\<exists>t1. ai (keyword_call (list_get rp w1 @ [Part_from_text (text_prompt jr q l ck)]))
                    = Inr (Some t1)
             \<and> (ai (search_call [Part_from_text (search_analysis_prompt
                      (make_search_query (keywords_list t1) q l))]) = Inl e
                \<or> (ai (search_call [Part_from_text (search_analysis_prompt
                      (make_search_query (keywords_list t1) q l))]) = Inr None
                     \<and> e = attribute_error ''strip'')
                \<or> (\<exists>t2. ai (search_call [Part_from_text (search_analysis_prompt
                      (make_search_query (keywords_list t1) q l))]) = Inr (Some t2)
                     \<and> loads (strip_code_fence t2) = Inl e))))"
proof -
  have resp: "search_jobs ai loads jr q l ck rf w =
       (HTTPException 500 failure_detail,
        w2\<lparr>stdout := stdout w2 @ [ascii ''Gemini/Search Error: '' @ exn_str e]\<rparr>)"
    by (rule search_jobs_failed [OF assms])
  have "stdout w1 = stdout w"
    using process_resume_file_frame(2) [of rf w] assms(1) by simp
  moreover have "stdout w2 = stdout w1"
    using run_stdout [of ai loads jr q l ck rp w1] assms(2) by simp
  ultimately have out: "stdout w2 = stdout w" by simp
  have "fst (run_full_job_search ai loads jr q l ck rp w1) = Inl e"
    using assms(2) by simp
  note kinds = run_failure_kinds [OF this]
  show ?thesis
    by (intro conjI) (rule resp out failure_detail_def kinds)+
qed

theorem orchestration_failure_opaque_witness:
  "fst (search_jobs (\<lambda>c. Inl (Exn ''ConnectionError'' (ascii ''network unreachable''))) mock_loads
          (ascii ''Engineer'') (ascii ''BSc'') (ascii ''Remote'') [] None world0)
     = HTTPException 500
         (ascii ''The AI search service failed to process the request. Try refining your query.'')
   \<and> stdout (snd (search_jobs (\<lambda>c. Inl (Exn ''ConnectionError'' (ascii ''network unreachable'')))
          mock_loads (ascii ''Engineer'') (ascii ''BSc'') (ascii ''Remote'') [] None world0))
     = [ascii ''Gemini/Search Error: network unreachable'']"
proof -
  let ?ai = "(\<lambda>c. Inl (Exn ''ConnectionError'' (ascii ''network unreachable''))) :: ai_service"
  let ?w1 = "world0\<lparr>heap := heap world0 @ [[]]\<rparr>"
  let ?run = "run_full_job_search ?ai mock_loads (ascii ''Engineer'') (ascii ''BSc'')
      (ascii ''Remote'') [] (length (heap world0)) ?w1"
  have "fst ?run = Inl (Exn ''ConnectionError'' (ascii ''network unreachable''))"
    by (simp add: run_outcome)
  then have run: "?run = (Inl (Exn ''ConnectionError'' (ascii ''network unreachable'')), snd ?run)"
    by (simp add: prod_eq_iff)
  note inst = orchestration_failure_opaque [where ai = ?ai and loads = mock_loads and rf = None
      and w = world0 and jr = "ascii ''Engineer''" and q = "ascii ''BSc''" and l = "ascii ''Remote''"
      and ck = "[]", OF process_resume_file_None run]
  have "stdout world0 = []" by (simp add: world0_def)
  with inst show ?thesis by simp
qed

text \<open>
  Claim C6. When reading the uploaded resume raises an exception, the handler returns
  status 500 with the body \<^verbatim>\<open>{"message": "File reading failed: " + str(e)}\<close>. The world
  is then the one right after the empty list of parts was created: nothing was sent to
  the AI service and nothing was printed, whereas every run of the orchestrator sends
  at least one request.
\<close>

theorem file_read_failure_response:
  assumes "file_read f = Inl e"
  shows "search_jobs ai loads jr q l ck (Some f) w =
       (JSONResponse 500 (Message (ascii ''File reading failed: '' @ exn_str e)),
        snd (new_list [] w))
     \<and> ai_calls (snd (search_jobs ai loads jr q l ck (Some f) w)) = ai_calls w
     \<and> stdout (snd (search_jobs ai loads jr q l ck (Some f) w)) = stdout w
     \<and> (\<forall>rp w'. ai_calls (snd (run_full_job_search ai loads jr q l ck rp w')) \<noteq> ai_calls w')"
proof -
  have resp: "search_jobs ai loads jr q l ck (Some f) w =
       (JSONResponse 500 (Message (ascii ''File reading failed: '' @ exn_str e)),
        snd (new_list [] w))"
    by (rule search_jobs_read_failed [OF assms])
  have calls: "ai_calls (snd (search_jobs ai loads jr q l ck (Some f) w)) = ai_calls w"
    by (simp add: resp new_list_def)
  have out: "stdout (snd (search_jobs ai loads jr q l ck (Some f) w)) = stdout w"
    by (simp add: resp new_list_def)
  have invoked: "\<forall>rp w'. ai_calls (snd (run_full_job_search ai loads jr q l ck rp w')) \<noteq> ai_calls w'"
    using run_makes_a_call by blast
  show ?thesis
    by (intro conjI) (rule resp calls out invoked)+
qed

theorem file_read_failure_response_witness:
  "fst (search_jobs (mock_ai (ascii ''Python'') (ascii ''[]'')) mock_loads
          (ascii ''Engineer'') (ascii ''BSc'') (ascii ''Remote'') []
          (Some \<lparr>file_read = Inl (Exn ''OSError'' (ascii ''upload truncated'')),
                 content_type = Some (ascii ''application/pdf'')\<rparr>) world0)
     = JSONResponse 500 (Message (ascii ''File reading failed: upload truncated''))
   \<and> ai_calls (snd (search_jobs (mock_ai (ascii ''Python'') (ascii ''[]'')) mock_loads
          (ascii ''Engineer'') (ascii ''BSc'') (ascii ''Remote'') []
          (Some \<lparr>file_read = Inl (Exn ''OSError'' (ascii ''upload truncated'')),
                 content_type = Some (ascii ''application/pdf'')\<rparr>) world0)) = []"
proof -
  let ?f = "\<lparr>file_read = Inl (Exn ''OSError'' (ascii ''upload truncated'')),
             content_type = Some (ascii ''application/pdf'')\<rparr>"
  have r: "file_read ?f = Inl (Exn ''OSError'' (ascii ''upload truncated''))" by simp
  note inst = file_read_failure_response [where f = ?f
      and ai = "mock_ai (ascii ''Python'') (ascii ''[]'')" and loads = mock_loads
      and w = world0 and jr = "ascii ''Engineer''" and q = "ascii ''BSc''" and l = "ascii ''Remote''"
      and ck = "[]", OF r]
  have a: "fst (search_jobs (mock_ai (ascii ''Python'') (ascii ''[]'')) mock_loads
          (ascii ''Engineer'') (ascii ''BSc'') (ascii ''Remote'') [] (Some ?f) world0)
     = JSONResponse 500 (Message (ascii ''File reading failed: upload truncated''))"
    using inst [THEN conjunct1] by simp
  have b: "ai_calls (snd (search_jobs (mock_ai (ascii ''Python'') (ascii ''[]'')) mock_loads
          (ascii ''Engineer'') (ascii ''BSc'') (ascii ''Remote'') [] (Some ?f) world0)) = []"
    using inst [THEN conjunct2, THEN conjunct1] by (simp add: world0_def)
  show ?thesis
    by (intro conjI) (rule a b)+
qed

text \<open>
  Claim C7. Without a resume file, the first request the handler sends to the AI
  service is the keyword request whose contents are the single text part with the
  instruction: no part carries inline data. The keywords of a successful response are
  the keyword list of the text that request returned.
\<close>

theorem no_resume_text_only:
  "(\<exists>rest. ai_calls (snd (search_jobs ai loads jr q l ck None w)) =
       ai_calls w @ keyword_call [Part_from_text (text_prompt jr q l ck)] # rest)
   \<and> contents (keyword_call [Part_from_text (text_prompt jr q l ck)])
       = [Part_from_text (text_prompt jr q l ck)]
   \<and> \<not> list_ex is_inline_data (contents (keyword_call [Part_from_text (text_prompt jr q l ck)]))
   \<and> (fst (search_jobs ai loads jr q l ck None w) = JSONResponse 200 (SearchData d) \<longrightarrow>
        (\<exists>t1. ai (keyword_call [Part_from_text (text_prompt jr q l ck)]) = Inr (Some t1)
           \<and> keywords d = keywords_list t1))"
proof -
  have c: "contents (keyword_call [Part_from_text (text_prompt jr q l ck)])
       = [Part_from_text (text_prompt jr q l ck)]"
    by (simp add: keyword_call_def)
  have n: "\<not> list_ex is_inline_data (contents (keyword_call [Part_from_text (text_prompt jr q l ck)]))"
    by (simp add: keyword_call_def)
  have k: "fst (search_jobs ai loads jr q l ck None w) = JSONResponse 200 (SearchData d) \<longrightarrow>
        (\<exists>t1. ai (keyword_call [Part_from_text (text_prompt jr q l ck)]) = Inr (Some t1)
           \<and> keywords d = keywords_list t1)"
    using search_jobs_None_keywords by blast
  show ?thesis
    by (intro conjI) (rule search_jobs_None_calls c n k)+
qed

theorem no_resume_text_only_witness:
  "fst (search_jobs (mock_ai (ascii ''Python, Remote, Backend'') (ascii ''[]'')) mock_loads
          (ascii ''Engineer'') (ascii ''BSc'') (ascii ''Remote'') [] None world0)
     = JSONResponse 200 (SearchData
         \<lparr>search_query = ascii ''Python Remote Backend BSc Remote'',
          keywords = [ascii ''Python'', ascii ''Remote'', ascii ''Backend''],
          results = JArray []\<rparr>)
   \<and> (\<exists>t1. mock_ai (ascii ''Python, Remote, Backend'') (ascii ''[]'')
            (keyword_call [Part_from_text
               (text_prompt (ascii ''Engineer'') (ascii ''BSc'') (ascii ''Remote'') [])])
          = Inr (Some t1)
        \<and> [ascii ''Python'', ascii ''Remote'', ascii ''Backend''] = keywords_list t1)
   \<and> (\<exists>rest. ai_calls (snd (search_jobs (mock_ai (ascii ''Python, Remote, Backend'') (ascii ''[]''))
          mock_loads (ascii ''Engineer'') (ascii ''BSc'') (ascii ''Remote'') [] None world0))
        = keyword_call [Part_from_text
            (text_prompt (ascii ''Engineer'') (ascii ''BSc'') (ascii ''Remote'') [])] # rest)"
proof -
  let ?d = "\<lparr>search_query = ascii ''Python Remote Backend BSc Remote'',
          keywords = [ascii ''Python'', ascii ''Remote'', ascii ''Backend''],
          results = JArray []\<rparr>"
  have resp: "fst (search_jobs (mock_ai (ascii ''Python, Remote, Backend'') (ascii ''[]'')) mock_loads
          (ascii ''Engineer'') (ascii ''BSc'') (ascii ''Remote'') [] None world0)
     = JSONResponse 200 (SearchData ?d)"
    using mock_search_jobs_None [OF mock_loads_empty_array,
        of "ascii ''Python, Remote, Backend''" "ascii ''Engineer''" "ascii ''BSc''" "ascii ''Remote''"
           "[]" world0]
      keywords_list_example3 make_search_query_example
    by simp
  note inst = no_resume_text_only [where ai = "mock_ai (ascii ''Python, Remote, Backend'') (ascii ''[]'')"
      and loads = mock_loads and jr = "ascii ''Engineer''" and q = "ascii ''BSc''"
      and l = "ascii ''Remote''" and ck = "[]" and w = world0 and d = ?d]
  have kw: "\<exists>t1. mock_ai (ascii ''Python, Remote, Backend'') (ascii ''[]'')
            (keyword_call [Part_from_text
               (text_prompt (ascii ''Engineer'') (ascii ''BSc'') (ascii ''Remote'') [])])
          = Inr (Some t1)
        \<and> [ascii ''Python'', ascii ''Remote'', ascii ''Backend''] = keywords_list t1"
    using inst [THEN conjunct2, THEN conjunct2, THEN conjunct2] resp by simp
  have calls: "\<exists>rest. ai_calls (snd (search_jobs (mock_ai (ascii ''Python, Remote, Backend'') (ascii ''[]''))
          mock_loads (ascii ''Engineer'') (ascii ''BSc'') (ascii ''Remote'') [] None world0))
        = keyword_call [Part_from_text
            (text_prompt (ascii ''Engineer'') (ascii ''BSc'') (ascii ''Remote'') [])] # rest"
    using inst [THEN conjunct1] by (simp add: world0_def)
  show ?thesis
    by (intro conjI) (rule resp kw calls)+
qed

text \<open>
  Claim C8. The orchestrator changes no list object that existed when it was called; in
  particular the list of resume parts it was given has the same elements afterwards.
  The text part with the instruction is appended to a new list, the copy.
\<close>

theorem resume_parts_not_mutated:
  "take (length (heap w)) (heap (snd (run_full_job_search ai loads jr q l ck rp w))) = heap w
   \<and> (rp < length (heap w) \<longrightarrow>
        list_get rp (snd (run_full_job_search ai loads jr q l ck rp w)) = list_get rp w)
   \<and> list_get (length (heap w)) (snd (run_full_job_search ai loads jr q l ck rp w))
       = list_get rp w @ [Part_from_text (text_prompt jr q l ck)]"
proof -
  have k: "rp < length (heap w) \<longrightarrow>
        list_get rp (snd (run_full_job_search ai loads jr q l ck rp w)) = list_get rp w"
    using run_keeps_list by blast
  show ?thesis
    by (intro conjI) (rule run_heap_prefix k run_appends_to_copy)+
qed

theorem resume_parts_not_mutated_witness:
  "list_get 0 (snd (new_list [pdf_part] world0)) = [pdf_part]
   \<and> list_get 0 (snd (run_full_job_search (mock_ai (ascii ''Python'') (ascii ''[]'')) mock_loads
         (ascii ''Engineer'') (ascii ''BSc'') (ascii ''Remote'') [] 0 (snd (new_list [pdf_part] world0))))
       = [pdf_part]
   \<and> list_get 1 (snd (run_full_job_search (mock_ai (ascii ''Python'') (ascii ''[]'')) mock_loads
         (ascii ''Engineer'') (ascii ''BSc'') (ascii ''Remote'') [] 0 (snd (new_list [pdf_part] world0))))
       = [pdf_part, Part_from_text (text_prompt (ascii ''Engineer'') (ascii ''BSc'') (ascii ''Remote'') [])]"
proof -
  let ?w = "snd (new_list [pdf_part] world0)"
  have len: "length (heap ?w) = 1" by (simp add: new_list_def world0_def)
  have get: "list_get 0 ?w = [pdf_part]" by (simp add: new_list_def world0_def list_get_def)
  have lt: "0 < length (heap ?w)" using len by simp
  note inst = resume_parts_not_mutated [where w = ?w and rp = 0
      and ai = "mock_ai (ascii ''Python'') (ascii ''[]'')" and loads = mock_loads
      and jr = "ascii ''Engineer''" and q = "ascii ''BSc''" and l = "ascii ''Remote''" and ck = "[]"]
  have a: "list_get 0 (snd (run_full_job_search (mock_ai (ascii ''Python'') (ascii ''[]'')) mock_loads
         (ascii ''Engineer'') (ascii ''BSc'') (ascii ''Remote'') [] 0 ?w)) = [pdf_part]"
    using inst [THEN conjunct2, THEN conjunct1] lt get by simp
  have b: "list_get 1 (snd (run_full_job_search (mock_ai (ascii ''Python'') (ascii ''[]'')) mock_loads
         (ascii ''Engineer'') (ascii ''BSc'') (ascii ''Remote'') [] 0 ?w))
       = [pdf_part, Part_from_text (text_prompt (ascii ''Engineer'') (ascii ''BSc'') (ascii ''Remote'') [])]"
    using inst [THEN conjunct2, THEN conjunct2] len get by simp
  show ?thesis
    by (intro conjI) (rule get a b)+
qed

text \<open>
  Claim C9. For empty byte content \<^verbatim>\<open>get_gemini_parts\<close> returns the empty list (and for
  any other content the single inline part). A request whose uploaded file reads as zero
  bytes therefore gets the same response, sends the same requests to the AI service and
  prints the same lines as the request without a file: the first request sent holds the
  text part only.
\<close>

theorem empty_upload_like_no_upload:
  assumes "file_read f = Inr []"
  shows "list_get (fst (get_gemini_parts [] m w')) (snd (get_gemini_parts [] m w')) = []
     \<and> fst (search_jobs ai loads jr q l ck (Some f) w) = fst (search_jobs ai loads jr q l ck None w)
     \<and> ai_calls (snd (search_jobs ai loads jr q l ck (Some f) w))
         = ai_calls (snd (search_jobs ai loads jr q l ck None w))
     \<and> stdout (snd (search_jobs ai loads jr q l ck (Some f) w))
         = stdout (snd (search_jobs ai loads jr q l ck None w))
     \<and> (\<exists>rest. ai_calls (snd (search_jobs ai loads jr q l ck (Some f) w)) =
           ai_calls w @ keyword_call [Part_from_text (text_prompt jr q l ck)] # rest)"
proof -
  let ?w0 = "w\<lparr>heap := heap w @ [[]]\<rparr>"
  let ?w1 = "w\<lparr>heap := heap w @ [[], []]\<rparr>"
  let ?r0 = "length (heap w)"
  let ?r1 = "Suc (length (heap w))"
  have p0: "process_resume_file None w = (Inr ?r0, ?w0)"
    by (rule process_resume_file_None)
  have p1: "process_resume_file (Some f) w = (Inr ?r1, ?w1)"
    using process_resume_file_read [OF assms, of w] by simp
  have same: "list_get ?r1 ?w1 = list_get ?r0 ?w0"
    by (simp add: list_get_after_None list_get_after_read)
  have run: "fst (run_full_job_search ai loads jr q l ck ?r1 ?w1)
           = fst (run_full_job_search ai loads jr q l ck ?r0 ?w0)"
    by (rule run_same_contents [OF same])
  have resp: "fst (search_jobs ai loads jr q l ck (Some f) w) = fst (search_jobs ai loads jr q l ck None w)"
    using search_jobs_response [OF p0, of ai loads jr q l ck]
      search_jobs_response [OF p1, of ai loads jr q l ck] run
    by simp
  have "ai_calls (snd (run_full_job_search ai loads jr q l ck ?r1 ?w1))
           = ai_calls (snd (run_full_job_search ai loads jr q l ck ?r0 ?w0))"
    by (rule run_same_calls [OF same]) simp
  then have calls: "ai_calls (snd (search_jobs ai loads jr q l ck (Some f) w))
         = ai_calls (snd (search_jobs ai loads jr q l ck None w))"
    using search_jobs_ai_calls [OF p0, of ai loads jr q l ck]
      search_jobs_ai_calls [OF p1, of ai loads jr q l ck]
    by simp
  have out: "stdout (snd (search_jobs ai loads jr q l ck (Some f) w))
         = stdout (snd (search_jobs ai loads jr q l ck None w))"
    using search_jobs_stdout [OF p0, of ai loads jr q l ck]
      search_jobs_stdout [OF p1, of ai loads jr q l ck] run
    by simp
  have first: "\<exists>rest. ai_calls (snd (search_jobs ai loads jr q l ck (Some f) w)) =
           ai_calls w @ keyword_call [Part_from_text (text_prompt jr q l ck)] # rest"
    using search_jobs_None_calls [of ai loads jr q l ck w] calls by simp
  show ?thesis
    by (intro conjI) (rule get_gemini_parts_empty resp calls out first)+
qed

theorem empty_upload_like_no_upload_witness:
  "fst (search_jobs (mock_ai (ascii ''Python, Remote, Backend'') (ascii ''[]'')) mock_loads
          (ascii ''Engineer'') (ascii ''BSc'') (ascii ''Remote'') []
          (Some \<lparr>file_read = Inr [], content_type = Some (ascii ''application/pdf'')\<rparr>) world0)
     = JSONResponse 200 (SearchData
         \<lparr>search_query = ascii ''Python Remote Backend BSc Remote'',
          keywords = [ascii ''Python'', ascii ''Remote'', ascii ''Backend''],
          results = JArray []\<rparr>)
   \<and> (\<exists>rest. ai_calls (snd (search_jobs (mock_ai (ascii ''Python, Remote, Backend'') (ascii ''[]''))
          mock_loads (ascii ''Engineer'') (ascii ''BSc'') (ascii ''Remote'') []
          (Some \<lparr>file_read = Inr [], content_type = Some (ascii ''application/pdf'')\<rparr>) world0))
        = keyword_call [Part_from_text
            (text_prompt (ascii ''Engineer'') (ascii ''BSc'') (ascii ''Remote'') [])] # rest)"
proof -
  let ?f = "\<lparr>file_read = Inr ([] :: bytes), content_type = Some (ascii ''application/pdf'')\<rparr>"
  have r: "file_read ?f = Inr []" by simp
  note inst = empty_upload_like_no_upload [where f = ?f
      and ai = "mock_ai (ascii ''Python, Remote, Backend'') (ascii ''[]'')"
      and loads = mock_loads and jr = "ascii ''Engineer''" and q = "ascii ''BSc''"
      and l = "ascii ''Remote''" and ck = "[]" and w = world0, OF r]
  have none: "fst (search_jobs (mock_ai (ascii ''Python, Remote, Backend'') (ascii ''[]'')) mock_loads
          (ascii ''Engineer'') (ascii ''BSc'') (ascii ''Remote'') [] None world0)
     = JSONResponse 200 (SearchData
         \<lparr>search_query = ascii ''Python Remote Backend BSc Remote'',
          keywords = [ascii ''Python'', ascii ''Remote'', ascii ''Backend''],
          results = JArray []\<rparr>)"
    using mock_search_jobs_None [OF mock_loads_empty_array,
        of "ascii ''Python, Remote, Backend''" "ascii ''Engineer''" "ascii ''BSc''" "ascii ''Remote''"
           "[]" world0]
      keywords_list_example3 make_search_query_example
    by simp
  have a: "fst (search_jobs (mock_ai (ascii ''Python, Remote, Backend'') (ascii ''[]'')) mock_loads
          (ascii ''Engineer'') (ascii ''BSc'') (ascii ''Remote'') [] (Some ?f) world0)
     = JSONResponse 200 (SearchData
         \<lparr>search_query = ascii ''Python Remote Backend BSc Remote'',
          keywords = [ascii ''Python'', ascii ''Remote'', ascii ''Backend''],
          results = JArray []\<rparr>)"
    using inst [THEN conjunct2, THEN conjunct1] none by simp
  have b: "\<exists>rest. ai_calls (snd (search_jobs (mock_ai (ascii ''Python, Remote, Backend'') (ascii ''[]''))
          mock_loads (ascii ''Engineer'') (ascii ''BSc'') (ascii ''Remote'') [] (Some ?f) world0))
        = keyword_call [Part_from_text
            (text_prompt (ascii ''Engineer'') (ascii ''BSc'') (ascii ''Remote'') [])] # rest"
    using inst [THEN conjunct2, THEN conjunct2, THEN conjunct2, THEN conjunct2]
    by (simp add: world0_def)
  show ?thesis
    by (intro conjI) (rule a b)+
qed

text \<open>
  Claim C10. The result of the orchestrator depends on the AI service only through the
  texts of its two responses. Two runs with the same form fields and the same resume
  parts (in whatever list object and world), against services that answer the keyword
  request with the same text and the search request with the same text, give the same
  result: the parser's exception, or the query, the keywords and the parsed value.
\<close>

theorem run_deterministic_given_responses:
  assumes "list_get rp w = list_get rp' w'"
    and "ai (keyword_call (list_get rp w @ [Part_from_text (text_prompt jr q l ck)])) = Inr (Some t1)"
    and "ai' (keyword_call (list_get rp' w' @ [Part_from_text (text_prompt jr q l ck)])) = Inr (Some t1)"
    and "ai (search_call [Part_from_text (search_analysis_prompt
                (make_search_query (keywords_list t1) q l))]) = Inr (Some t2)"
    and "ai' (search_call [Part_from_text (search_analysis_prompt
                (make_search_query (keywords_list t1) q l))]) = Inr (Some t2)"
  shows "fst (run_full_job_search ai loads jr q l ck rp w)
           = fst (run_full_job_search ai' loads jr q l ck rp' w')
     \<and> fst (run_full_job_search ai loads jr q l ck rp w) =
         (case loads (strip_code_fence t2) of
            Inl e \<Rightarrow> Inl e
          | Inr parsed \<Rightarrow> Inr \<lparr>search_query = make_search_query (keywords_list t1) q l,
                              keywords = keywords_list t1, results = parsed\<rparr>)"
proof -
  have a: "fst (run_full_job_search ai loads jr q l ck rp w) =
         (case loads (strip_code_fence t2) of
            Inl e \<Rightarrow> Inl e
          | Inr parsed \<Rightarrow> Inr \<lparr>search_query = make_search_query (keywords_list t1) q l,
                              keywords = keywords_list t1, results = parsed\<rparr>)"
    using assms(2,4) by (simp add: run_outcome)
  have b: "fst (run_full_job_search ai' loads jr q l ck rp' w') =
         (case loads (strip_code_fence t2) of
            Inl e \<Rightarrow> Inl e
          | Inr parsed \<Rightarrow> Inr \<lparr>search_query = make_search_query (keywords_list t1) q l,
                              keywords = keywords_list t1, results = parsed\<rparr>)"
    using assms(3,5) by (simp add: run_outcome)
  have c: "fst (run_full_job_search ai loads jr q l ck rp w)
           = fst (run_full_job_search ai' loads jr q l ck rp' w')"
    using a b by simp
  show ?thesis
    by (intro conjI) (rule c a)+
qed

theorem run_deterministic_given_responses_witness:
  "fst (run_full_job_search (mock_ai (ascii ''Python, Remote, Backend'') (ascii ''[]'')) mock_loads
          (ascii ''Engineer'') (ascii ''BSc'') (ascii ''Remote'') [] 0 (snd (new_list [pdf_part] world0)))
     = fst (run_full_job_search
          (\<lambda>c. if model c = gemini_model
               then mock_ai (ascii ''Python, Remote, Backend'') (ascii ''[]'') c
               else Inl (Exn ''ValueError'' (ascii ''unknown model'')))
          mock_loads (ascii ''Engineer'') (ascii ''BSc'') (ascii ''Remote'') [] 1
          (snd (new_list [pdf_part] (snd (new_list [] world0)))))
   \<and> fst (run_full_job_search (mock_ai (ascii ''Python, Remote, Backend'') (ascii ''[]'')) mock_loads
          (ascii ''Engineer'') (ascii ''BSc'') (ascii ''Remote'') [] 0 (snd (new_list [pdf_part] world0)))
     = Inr \<lparr>search_query = ascii ''Python Remote Backend BSc Remote'',
            keywords = [ascii ''Python'', ascii ''Remote'', ascii ''Backend''],
            results = JArray []\<rparr>"
proof -
  let ?ai = "mock_ai (ascii ''Python, Remote, Backend'') (ascii ''[]'')"
  let ?ai' = "\<lambda>c. if model c = gemini_model
               then mock_ai (ascii ''Python, Remote, Backend'') (ascii ''[]'') c
               else Inl (Exn ''ValueError'' (ascii ''unknown model''))"
  let ?w = "snd (new_list [pdf_part] world0)"
  let ?w' = "snd (new_list [pdf_part] (snd (new_list [] world0)))"
  let ?jr = "ascii ''Engineer''" and ?q = "ascii ''BSc''" and ?l = "ascii ''Remote''"
  let ?t1 = "ascii ''Python, Remote, Backend''" and ?t2 = "ascii ''[]''"
  have same: "list_get 0 ?w = list_get 1 ?w'"
    by (simp add: new_list_def world0_def list_get_def)
  have k: "?ai (keyword_call (list_get 0 ?w @ [Part_from_text (text_prompt ?jr ?q ?l [])]))
             = Inr (Some ?t1)"
    by (simp add: mock_ai_def keyword_call_def)
  have k': "?ai' (keyword_call (list_get 1 ?w' @ [Part_from_text (text_prompt ?jr ?q ?l [])]))
             = Inr (Some ?t1)"
    by (simp add: mock_ai_def keyword_call_def)
  have f: "?ai (search_call [Part_from_text (search_analysis_prompt
                (make_search_query (keywords_list ?t1) ?q ?l))]) = Inr (Some ?t2)"
    by (simp add: mock_ai_def search_call_def)
  have f': "?ai' (search_call [Part_from_text (search_analysis_prompt
                (make_search_query (keywords_list ?t1) ?q ?l))]) = Inr (Some ?t2)"
    by (simp add: mock_ai_def search_call_def)
  note inst = run_deterministic_given_responses [where ai = ?ai and ai' = ?ai' and loads = mock_loads
      and rp = 0 and rp' = 1 and w = ?w and w' = ?w' and jr = ?jr and q = ?q and l = ?l and ck = "[]"
      and ?t1.0 = ?t1 and ?t2.0 = ?t2, OF same k k' f f']
  have a: "fst (run_full_job_search ?ai mock_loads ?jr ?q ?l [] 0 ?w)
     = fst (run_full_job_search ?ai' mock_loads ?jr ?q ?l [] 1 ?w')"
    by (rule inst [THEN conjunct1])
  have b: "fst (run_full_job_search ?ai mock_loads ?jr ?q ?l [] 0 ?w)
     = Inr \<lparr>search_query = ascii ''Python Remote Backend BSc Remote'',
            keywords = [ascii ''Python'', ascii ''Remote'', ascii ''Backend''],
            results = JArray []\<rparr>"
    using inst [THEN conjunct2] mock_loads_empty_array keywords_list_example3
      make_search_query_example
    by simp
  show ?thesis
    by (intro conjI) (rule a b)+
qed

end
